theory Spec2Isabelle
  imports Main
begin

section \<open>The relational store: tables\<close>

text \<open>
  The two migrations create the tables \<open>assignments\<close> and \<open>submissions\<close> and refer to
  \<open>profiles\<close>, \<open>courses\<close> and \<open>enrollments\<close>. A table is the list of its rows, a row a
  record of its columns. A \<open>uuid\<close> is a natural number, a \<open>timestamptz\<close> an integer (an
  instant; only the order of instants matters), a nullable column an \<open>option\<close>.
  The columns \<open>created_at\<close> and \<open>updated_at\<close> (and the trigger that maintains the
  latter) occur in no policy, constraint or view and are left out, as are \<open>quiz_id\<close>,
  \<open>description\<close> and \<open>instructions\<close> of \<open>assignments\<close>. \<open>courses.instructor_id\<close> is
  nullable, and a null instructor equals no caller.
\<close>

type_synonym uuid = nat
type_synonym timestamptz = int

record profile =
  p_id :: uuid
  p_full_name :: string
  p_role :: string

record course =
  c_id :: uuid
  c_title :: string
  c_instructor_id :: "uuid option"

record enrollment =
  e_user_id :: uuid
  e_course_id :: uuid
  e_status :: string

record assignment =
  a_id :: uuid
  a_course_id :: uuid
  a_title :: string
  a_type :: string
  a_due_date :: timestamptz
  a_max_score :: int
  a_status :: string

record submission =
  s_id :: uuid
  s_assignment_id :: uuid
  s_user_id :: uuid
  s_submitted_at :: "timestamptz option"
  s_file_url :: "string option"
  s_answer_text :: "string option"
  s_score :: "int option"
  s_feedback :: "string option"
  s_status :: string
  s_graded_by :: "uuid option"
  s_graded_at :: "timestamptz option"

record db =
  profiles :: "profile list"
  courses :: "course list"
  enrollments :: "enrollment list"
  assignments :: "assignment list"
  submissions :: "submission list"

text \<open>
  The errors the store raises, under the names of the spec's taxonomy (section 7):
  \<open>AuthorizationDenied\<close> is "new row violates row-level security policy", raised when
  a new row fails \<open>WITH CHECK\<close>; \<open>ValidationFailed\<close> is a violated table constraint.
  A row that a \<open>USING\<close> clause hides from the caller, or that does not exist, raises
  nothing: the statement sees no such row and reports success on zero rows.
  \<open>MissingInformation\<close> is the client's own early return.
\<close>

datatype error = AuthorizationDenied | ValidationFailed | MissingInformation

section \<open>Row-level policies\<close>

text \<open>
  Each policy is the boolean expression of its \<open>USING\<close> or \<open>WITH CHECK\<close> clause, with
  \<open>auth.uid()\<close> the caller. An \<open>EXISTS (SELECT 1 FROM t WHERE c)\<close> is \<open>list_ex\<close> over
  the table, a join a nested \<open>list_ex\<close>.
\<close>

definition is_admin :: "db \<Rightarrow> uuid \<Rightarrow> bool" where
  "is_admin d uid = list_ex (\<lambda>p. p_id p = uid \<and> p_role p = ''admin'') (profiles d)"

definition is_course_instructor :: "db \<Rightarrow> uuid \<Rightarrow> uuid \<Rightarrow> bool" where
  "is_course_instructor d uid cid =
     list_ex (\<lambda>c. c_id c = cid \<and> c_instructor_id c = Some uid) (courses d)"

definition is_actively_enrolled :: "db \<Rightarrow> uuid \<Rightarrow> uuid \<Rightarrow> bool" where
  "is_actively_enrolled d uid cid =
     list_ex (\<lambda>e. e_course_id e = cid \<and> e_user_id e = uid \<and> e_status e = ''active'')
       (enrollments d)"

text \<open>\<open>assignments\<close>: the two \<open>SELECT\<close> policies, students' and teachers'.\<close>

definition assignments_select_students :: "db \<Rightarrow> uuid \<Rightarrow> assignment \<Rightarrow> bool" where
  "assignments_select_students d uid a =
     (a_status a = ''published'' \<and> is_actively_enrolled d uid (a_course_id a))"

definition assignments_select_teachers :: "db \<Rightarrow> uuid \<Rightarrow> assignment \<Rightarrow> bool" where
  "assignments_select_teachers d uid a =
     (is_course_instructor d uid (a_course_id a) \<or> is_admin d uid)"

text \<open>Permissive policies for one command are combined with \<open>OR\<close>.\<close>

definition assignments_select :: "db \<Rightarrow> uuid \<Rightarrow> assignment \<Rightarrow> bool" where
  "assignments_select d uid a =
     (assignments_select_students d uid a \<or> assignments_select_teachers d uid a)"

text \<open>
  \<open>submissions\<close>: the sub-select \<open>assignments a JOIN courses c ON c.id = a.course_id
  WHERE a.id = submissions.assignment_id AND c.instructor_id = auth.uid()\<close> that the
  teachers' policies share.
\<close>

definition instructs_assignment :: "db \<Rightarrow> uuid \<Rightarrow> uuid \<Rightarrow> bool" where
  "instructs_assignment d uid aid =
     list_ex (\<lambda>a. a_id a = aid \<and> is_course_instructor d uid (a_course_id a)) (assignments d)"

definition submissions_select_own :: "db \<Rightarrow> uuid \<Rightarrow> submission \<Rightarrow> bool" where
  "submissions_select_own d uid s = (s_user_id s = uid)"

definition submissions_teachers :: "db \<Rightarrow> uuid \<Rightarrow> submission \<Rightarrow> bool" where
  "submissions_teachers d uid s =
     (instructs_assignment d uid (s_assignment_id s) \<or> is_admin d uid)"

definition submissions_select :: "db \<Rightarrow> uuid \<Rightarrow> submission \<Rightarrow> bool" where
  "submissions_select d uid s = (submissions_select_own d uid s \<or> submissions_teachers d uid s)"

text \<open>The only \<open>INSERT\<close> policy on \<open>submissions\<close>: students create their own.\<close>

definition submissions_insert_check :: "db \<Rightarrow> uuid \<Rightarrow> submission \<Rightarrow> bool" where
  "submissions_insert_check d uid s =
     (s_user_id s = uid \<and>
      list_ex (\<lambda>a. list_ex (\<lambda>e. e_course_id e = a_course_id a \<and> a_id a = s_assignment_id s \<and>
                               e_user_id e = uid \<and> e_status e = ''active'' \<and>
                               a_status a = ''published'')
                     (enrollments d))
        (assignments d))"

definition submissions_update_own :: "db \<Rightarrow> uuid \<Rightarrow> submission \<Rightarrow> bool" where
  "submissions_update_own d uid s =
     (s_user_id s = uid \<and> s_status s \<in> set [''pending'', ''submitted'', ''late''])"

definition submissions_update_using :: "db \<Rightarrow> uuid \<Rightarrow> submission \<Rightarrow> bool" where
  "submissions_update_using d uid s =
     (submissions_update_own d uid s \<or> submissions_teachers d uid s)"

definition submissions_update_check :: "db \<Rightarrow> uuid \<Rightarrow> submission \<Rightarrow> bool" where
  "submissions_update_check d uid s =
     (submissions_update_own d uid s \<or> submissions_teachers d uid s)"

definition submissions_delete_using :: "db \<Rightarrow> uuid \<Rightarrow> submission \<Rightarrow> bool" where
  "submissions_delete_using d uid s = submissions_teachers d uid s"

section \<open>Table constraints of \<open>submissions\<close>\<close>

definition submissions_status_check :: "submission \<Rightarrow> bool" where
  "submissions_status_check s =
     (s_status s \<in> set [''pending'', ''submitted'', ''late'', ''graded'', ''returned''])"

definition submissions_score_check :: "submission \<Rightarrow> bool" where
  "submissions_score_check s =
     (case s_score s of None \<Rightarrow> True | Some n \<Rightarrow> 0 \<le> n \<and> n \<le> 100)"

text \<open>
  The primary key and \<open>submissions_unique_user_assignment\<close>: the new row against the
  rows it would stand beside.
\<close>

definition submissions_unique_violated :: "submission list \<Rightarrow> submission \<Rightarrow> bool" where
  "submissions_unique_violated rows s =
     list_ex (\<lambda>t. s_id t = s_id s \<or>
                  (s_assignment_id t = s_assignment_id s \<and> s_user_id t = s_user_id s)) rows"

text \<open>The three foreign keys (\<open>graded_by\<close> is nullable).\<close>

definition submissions_fkeys :: "db \<Rightarrow> submission \<Rightarrow> bool" where
  "submissions_fkeys d s =
     (list_ex (\<lambda>a. a_id a = s_assignment_id s) (assignments d) \<and>
      list_ex (\<lambda>p. p_id p = s_user_id s) (profiles d) \<and>
      (case s_graded_by s of None \<Rightarrow> True
       | Some g \<Rightarrow> list_ex (\<lambda>p. p_id p = g) (profiles d)))"

definition submissions_constraints :: "db \<Rightarrow> submission list \<Rightarrow> submission \<Rightarrow> bool" where
  "submissions_constraints d others s =
     (submissions_status_check s \<and> submissions_score_check s \<and>
      \<not> submissions_unique_violated others s \<and> submissions_fkeys d s)"

section \<open>Row operations on \<open>submissions\<close>\<close>

text \<open>
  What an \<open>INSERT\<close> supplies: a column left out (\<open>None\<close> for \<open>i_status\<close>) takes its
  default, \<open>'pending'\<close> for \<open>status\<close> and \<open>NULL\<close> for the nullable columns; \<open>id\<close> is
  \<open>gen_random_uuid()\<close>, passed in as \<open>nid\<close>.
\<close>

record submission_insert =
  i_assignment_id :: uuid
  i_user_id :: uuid
  i_submitted_at :: "timestamptz option"
  i_file_url :: "string option"
  i_answer_text :: "string option"
  i_score :: "int option"
  i_feedback :: "string option"
  i_status :: "string option"
  i_graded_by :: "uuid option"
  i_graded_at :: "timestamptz option"

definition status_default :: string where
  "status_default = ''pending''"

definition new_row :: "uuid \<Rightarrow> submission_insert \<Rightarrow> submission" where
  "new_row nid i =
     \<lparr>s_id = nid, s_assignment_id = i_assignment_id i, s_user_id = i_user_id i,
      s_submitted_at = i_submitted_at i, s_file_url = i_file_url i,
      s_answer_text = i_answer_text i, s_score = i_score i, s_feedback = i_feedback i,
      s_status = (case i_status i of None \<Rightarrow> status_default | Some st \<Rightarrow> st),
      s_graded_by = i_graded_by i, s_graded_at = i_graded_at i\<rparr>"

text \<open>
  The store checks the row-level policy of the new row first, then the table
  constraints; a refused statement leaves the table as it was (no new state is
  returned).
\<close>

definition insert_submission :: "db \<Rightarrow> uuid \<Rightarrow> uuid \<Rightarrow> submission_insert \<Rightarrow> error + db" where
  "insert_submission d uid nid i =
     (let s = new_row nid i in
      if \<not> submissions_insert_check d uid s then Inl AuthorizationDenied
      else if \<not> submissions_constraints d (submissions d) s then Inl ValidationFailed
      else Inr (d\<lparr>submissions := submissions d @ [s]\<rparr>))"

text \<open>
  \<open>UPDATE submissions SET ... WHERE id = sid\<close>: the \<open>SET\<close> clause is a function of the
  old row. A row that does not exist, or that \<open>USING\<close> hides from the caller, is not
  touched and nothing is raised (\<open>UPDATE 0\<close>): the table is returned as it was. For a
  row the caller may update, \<open>WITH CHECK\<close> is evaluated on the new row and raises when
  it fails; then come the constraints, the uniqueness ones against the other rows.
\<close>

definition replace_row :: "uuid \<Rightarrow> submission \<Rightarrow> submission list \<Rightarrow> submission list" where
  "replace_row sid new rows = map (\<lambda>s. if s_id s = sid then new else s) rows"

definition update_submission ::
  "db \<Rightarrow> uuid \<Rightarrow> uuid \<Rightarrow> (submission \<Rightarrow> submission) \<Rightarrow> error + db" where
  "update_submission d uid sid upd =
     (case find (\<lambda>s. s_id s = sid) (submissions d) of
        None \<Rightarrow> Inr d
      | Some old \<Rightarrow>
          if \<not> submissions_update_using d uid old then Inr d
          else if \<not> submissions_update_check d uid (upd old) then Inl AuthorizationDenied
          else if \<not> submissions_constraints d
                      (filter (\<lambda>s. s_id s \<noteq> sid) (submissions d)) (upd old)
               then Inl ValidationFailed
          else Inr (d\<lparr>submissions := replace_row sid (upd old) (submissions d)\<rparr>))"

text \<open>
  \<open>DELETE FROM submissions WHERE id = sid\<close>: a row that does not exist or that
  \<open>USING\<close> hides is not deleted and nothing is raised (\<open>DELETE 0\<close>).
\<close>

definition delete_submission :: "db \<Rightarrow> uuid \<Rightarrow> uuid \<Rightarrow> error + db" where
  "delete_submission d uid sid =
     (case find (\<lambda>s. s_id s = sid) (submissions d) of
        None \<Rightarrow> Inr d
      | Some old \<Rightarrow>
          if \<not> submissions_delete_using d uid old then Inr d
          else Inr (d\<lparr>submissions := filter (\<lambda>s. s_id s \<noteq> sid) (submissions d)\<rparr>))"

text \<open>
  A read returns the rows the \<open>SELECT\<close> policies admit, and raises nothing for the
  others: a hidden row and an absent row both give no row.
\<close>

definition select_assignments :: "db \<Rightarrow> uuid \<Rightarrow> assignment list" where
  "select_assignments d uid = filter (assignments_select d uid) (assignments d)"

definition select_submissions :: "db \<Rightarrow> uuid \<Rightarrow> submission list" where
  "select_submissions d uid = filter (submissions_select d uid) (submissions d)"

text \<open>\<open>SELECT * FROM ... WHERE id = ...\<close>, by the caller.\<close>

definition read_assignment :: "db \<Rightarrow> uuid \<Rightarrow> uuid \<Rightarrow> assignment list" where
  "read_assignment d uid aid = filter (\<lambda>a. a_id a = aid) (select_assignments d uid)"

definition read_submission :: "db \<Rightarrow> uuid \<Rightarrow> uuid \<Rightarrow> submission list" where
  "read_submission d uid sid = filter (\<lambda>s. s_id s = sid) (select_submissions d uid)"

section \<open>The view \<open>student_assignment_progress\<close>\<close>

text \<open>
  The \<open>CASE\<close> of \<open>progress_status\<close>, its branches in the order of the view. The
  submission is \<open>None\<close> when the \<open>LEFT JOIN\<close> found no row, and then every column of
  \<open>s\<close> is \<open>NULL\<close>.
\<close>

fun progress_status :: "assignment \<Rightarrow> submission option \<Rightarrow> string" where
  "progress_status a None = ''not_submitted''"
| "progress_status a (Some s) =
     (case s_submitted_at s of
        None \<Rightarrow> ''not_submitted''
      | Some t \<Rightarrow>
          if t > a_due_date a then ''late''
          else if s_score s \<noteq> None then ''graded''
          else ''submitted'')"

record progress_row =
  v_student_id :: uuid
  v_student_name :: string
  v_assignment_id :: uuid
  v_assignment_title :: string
  v_course_id :: uuid
  v_due_date :: timestamptz
  v_max_score :: int
  v_submission_status :: "string option"
  v_score :: "int option"
  v_submitted_at :: "timestamptz option"
  v_graded_at :: "timestamptz option"
  v_progress_status :: string

definition left_join :: "'a list \<Rightarrow> 'a option list" where
  "left_join rows = (if rows = [] then [None] else map Some rows)"

definition progress_row_of :: "profile \<Rightarrow> assignment \<Rightarrow> submission option \<Rightarrow> progress_row" where
  "progress_row_of p a s =
     \<lparr>v_student_id = p_id p, v_student_name = p_full_name p, v_assignment_id = a_id a,
      v_assignment_title = a_title a, v_course_id = a_course_id a, v_due_date = a_due_date a,
      v_max_score = a_max_score a,
      v_submission_status = map_option s_status s,
      v_score = Option.bind s s_score,
      v_submitted_at = Option.bind s s_submitted_at,
      v_graded_at = Option.bind s s_graded_at,
      v_progress_status = progress_status a s\<rparr>"

definition student_assignment_progress :: "db \<Rightarrow> progress_row list" where
  "student_assignment_progress d =
     [progress_row_of p a s.
        p \<leftarrow> profiles d,
        a \<leftarrow> assignments d,
        e \<leftarrow> left_join (filter (\<lambda>e. e_user_id e = p_id p \<and> e_course_id e = a_course_id a)
                          (enrollments d)),
        s \<leftarrow> left_join (filter (\<lambda>s. s_user_id s = p_id p \<and> s_assignment_id s = a_id a)
                          (submissions d)),
        p_role p = ''student'' \<and> map_option e_status e = Some ''active'' \<and>
        a_status a = ''published'']"

section \<open>The grading form (\<open>GradingInterface.onSubmit\<close>)\<close>

text \<open>
  \<open>GradingFormData.status\<close> has the type \<open>'graded' | 'returned'\<close>; the two submit
  buttons set it. The score is the number typed in; the column is an integer and the
  model takes integers only.
\<close>

datatype grading_status = Graded | Returned

fun status_text :: "grading_status \<Rightarrow> string" where
  "status_text Graded = ''graded''"
| "status_text Returned = ''returned''"

record GradingFormData =
  gf_score :: int
  gf_feedback :: string
  gf_status :: grading_status

text \<open>\<open>submissionData\<close>: the columns an update of an existing row sets.\<close>

definition submissionData ::
  "GradingFormData \<Rightarrow> uuid \<Rightarrow> timestamptz \<Rightarrow> submission \<Rightarrow> submission" where
  "submissionData data user_id now s =
     s\<lparr>s_score := Some (gf_score data), s_feedback := Some (gf_feedback data),
       s_status := status_text (gf_status data), s_graded_by := Some user_id,
       s_graded_at := Some now\<rparr>"

text \<open>\<open>newSubmissionData\<close>: the columns the insert of a new row supplies.\<close>

definition newSubmissionData ::
  "GradingFormData \<Rightarrow> uuid \<Rightarrow> timestamptz \<Rightarrow> uuid \<Rightarrow> uuid \<Rightarrow> submission_insert" where
  "newSubmissionData data user_id now assignment_id studentId =
     \<lparr>i_assignment_id = assignment_id, i_user_id = studentId,
      i_submitted_at = None, i_file_url = None, i_answer_text = None,
      i_score = Some (gf_score data), i_feedback = Some (gf_feedback data),
      i_status = Some (status_text (gf_status data)),
      i_graded_by = Some user_id, i_graded_at = Some now\<rparr>"

text \<open>
  \<open>onSubmit\<close>: \<open>user\<close>, \<open>assignment\<close> and \<open>studentId\<close> may be missing; \<open>submission\<close> is
  the component's state, the row loaded earlier or \<open>null\<close>; \<open>nid\<close> and \<open>now\<close> are the
  generated id and the clock. The handler looks at \<open>error\<close> only: an \<open>Inl\<close> is the
  error toast, an \<open>Inr\<close> the success toast with the table as the store left it, also
  when the update touched no row.
\<close>

definition onSubmit ::
  "db \<Rightarrow> uuid option \<Rightarrow> uuid option \<Rightarrow> uuid option \<Rightarrow> submission option \<Rightarrow>
   uuid \<Rightarrow> timestamptz \<Rightarrow> GradingFormData \<Rightarrow> error + db" where
  "onSubmit d user assignment studentId submission nid now data =
     (case (user, assignment, studentId) of
        (Some u, Some aid, Some sid) \<Rightarrow>
          (case submission of
             Some sub \<Rightarrow> update_submission d u (s_id sub) (submissionData data u now)
           | None \<Rightarrow> insert_submission d u nid (newSubmissionData data u now aid sid))
      | _ \<Rightarrow> Inl MissingInformation)"

section \<open>Well-formed tables\<close>

definition submission_key :: "submission \<Rightarrow> uuid \<times> uuid" where
  "submission_key s = (s_assignment_id s, s_user_id s)"

text \<open>The primary key and the unique constraint, as a property of the table.\<close>

definition wf_submissions :: "submission list \<Rightarrow> bool" where
  "wf_submissions rows = (distinct (map s_id rows) \<and> distinct (map submission_key rows))"

section \<open>A small school\<close>

text \<open>
  The tables used to run the operations on concrete rows: two teachers (1 instructs the
  course 100, 3 the course 200), two students (2 and 5) enrolled in course 100, an
  admin (4), a published assignment due 2025-01-10T00:00:00Z with \<open>max_score\<close> 200, a
  draft one, and the submission of student 2, handed in 2025-01-11T00:00:00Z.
\<close>

definition homework1 :: assignment where
  "homework1 =
     \<lparr>a_id = 10, a_course_id = 100, a_title = ''Homework 1'', a_type = ''assignment'',
      a_due_date = 1736467200, a_max_score = 200, a_status = ''published''\<rparr>"

definition homework2 :: assignment where
  "homework2 =
     \<lparr>a_id = 11, a_course_id = 100, a_title = ''Homework 2'', a_type = ''assignment'',
      a_due_date = 1737072000, a_max_score = 100, a_status = ''draft''\<rparr>"

definition late_work :: submission where
  "late_work =
     \<lparr>s_id = 50, s_assignment_id = 10, s_user_id = 2, s_submitted_at = Some 1736553600,
      s_file_url = None, s_answer_text = Some ''x = 4'', s_score = None, s_feedback = None,
      s_status = ''submitted'', s_graded_by = None, s_graded_at = None\<rparr>"

definition school :: db where
  "school =
     \<lparr>profiles =
        [\<lparr>p_id = 1, p_full_name = ''Tara'', p_role = ''teacher''\<rparr>,
         \<lparr>p_id = 2, p_full_name = ''Sam'', p_role = ''student''\<rparr>,
         \<lparr>p_id = 3, p_full_name = ''Uma'', p_role = ''teacher''\<rparr>,
         \<lparr>p_id = 4, p_full_name = ''Ada'', p_role = ''admin''\<rparr>,
         \<lparr>p_id = 5, p_full_name = ''Stu'', p_role = ''student''\<rparr>],
      courses =
        [\<lparr>c_id = 100, c_title = ''Algebra'', c_instructor_id = Some 1\<rparr>,
         \<lparr>c_id = 200, c_title = ''Biology'', c_instructor_id = Some 3\<rparr>],
      enrollments =
        [\<lparr>e_user_id = 2, e_course_id = 100, e_status = ''active''\<rparr>,
         \<lparr>e_user_id = 5, e_course_id = 100, e_status = ''active''\<rparr>],
      assignments = [homework1, homework2],
      submissions = [late_work]\<rparr>"

definition grade85 :: GradingFormData where
  "grade85 = \<lparr>gf_score = 85, gf_feedback = ''Good effort.'', gf_status = Graded\<rparr>"

text \<open>The school after teacher 1 has graded the late submission at \<open>now = 1736600000\<close>.\<close>

definition graded_school :: db where
  "graded_school = school\<lparr>submissions := [submissionData grade85 1 1736600000 late_work]\<rparr>"

text \<open>
  A second row for the pair of \<open>late_work\<close>, and the row that \<open>onSubmit\<close> builds when
  the caller 5 records a grade for student 5, who has handed in nothing.
\<close>

definition second_attempt :: submission_insert where
  "second_attempt =
     \<lparr>i_assignment_id = 10, i_user_id = 2, i_submitted_at = Some 1736560000, i_file_url = None,
      i_answer_text = Some ''x = 5'', i_score = None, i_feedback = None, i_status = None,
      i_graded_by = None, i_graded_at = None\<rparr>"

definition recorded :: submission where
  "recorded = new_row 51 (newSubmissionData grade85 5 1736600000 10 5)"

section \<open>Reading the policies\<close>

lemma find_SomeD: "find P xs = Some x \<Longrightarrow> x \<in> set xs \<and> P x"
  by (induction xs) (auto split: if_splits)

lemma is_admin_iff:
  "is_admin d uid \<longleftrightarrow> (\<exists>p\<in>set (profiles d). p_id p = uid \<and> p_role p = ''admin'')"
  by (simp add: is_admin_def list_ex_iff)

lemma is_course_instructor_iff:
  "is_course_instructor d uid cid \<longleftrightarrow>
     (\<exists>c\<in>set (courses d). c_id c = cid \<and> c_instructor_id c = Some uid)"
  by (simp add: is_course_instructor_def list_ex_iff)

lemma is_actively_enrolled_iff:
  "is_actively_enrolled d uid cid \<longleftrightarrow>
     (\<exists>e\<in>set (enrollments d). e_course_id e = cid \<and> e_user_id e = uid \<and>
        e_status e = ''active'')"
  by (simp add: is_actively_enrolled_def list_ex_iff)

lemma instructs_assignment_iff:
  "instructs_assignment d uid aid \<longleftrightarrow>
     (\<exists>a\<in>set (assignments d). a_id a = aid \<and>
        (\<exists>c\<in>set (courses d). c_id c = a_course_id a \<and> c_instructor_id c = Some uid))"
  by (simp add: instructs_assignment_def is_course_instructor_iff list_ex_iff)

lemma submissions_insert_check_iff:
  "submissions_insert_check d uid s \<longleftrightarrow>
     s_user_id s = uid \<and>
     (\<exists>a\<in>set (assignments d). a_id a = s_assignment_id s \<and> a_status a = ''published'' \<and>
        is_actively_enrolled d uid (a_course_id a))"
  by (auto simp: submissions_insert_check_def is_actively_enrolled_def list_ex_iff)

text \<open>
  A statement that reads the row it changes is also subject to the \<open>SELECT\<close> policies;
  on \<open>submissions\<close> they admit every row that the \<open>UPDATE\<close> or \<open>DELETE\<close> policies admit,
  so the operations above need not mention them.
\<close>

lemma update_using_imp_select:
  "submissions_update_using d uid s \<Longrightarrow> submissions_select d uid s"
  by (auto simp: submissions_update_using_def submissions_update_own_def
      submissions_select_def submissions_select_own_def)

lemma delete_using_imp_select:
  "submissions_delete_using d uid s \<Longrightarrow> submissions_select d uid s"
  by (simp add: submissions_delete_using_def submissions_select_def)

text \<open>The only \<open>INSERT\<close> policy demands that the caller be the row's \<open>user_id\<close>.\<close>

lemma insert_submission_not_owner:
  "uid \<noteq> i_user_id i \<Longrightarrow> insert_submission d uid nid i = Inl AuthorizationDenied"
  by (simp add: insert_submission_def submissions_insert_check_def new_row_def)

lemma update_submission_found:
  "find (\<lambda>s. s_id s = sid) (submissions d) = Some old \<Longrightarrow>
   update_submission d uid sid upd =
     (if submissions_update_using d uid old
      then (if submissions_update_check d uid (upd old)
            then (if submissions_constraints d (filter (\<lambda>s. s_id s \<noteq> sid) (submissions d))
                       (upd old)
                  then Inr (d\<lparr>submissions := replace_row sid (upd old) (submissions d)\<rparr>)
                  else Inl ValidationFailed)
            else Inl AuthorizationDenied)
      else Inr d)"
  by (simp add: update_submission_def)

lemma delete_submission_found:
  "find (\<lambda>s. s_id s = sid) (submissions d) = Some old \<Longrightarrow>
   delete_submission d uid sid =
     (if submissions_delete_using d uid old
      then Inr (d\<lparr>submissions := filter (\<lambda>s. s_id s \<noteq> sid) (submissions d)\<rparr>)
      else Inr d)"
  by (simp add: delete_submission_def)

text \<open>Under a key, the rows with the key of a row of the table are that row alone.\<close>

lemma filter_key_single:
  "distinct (map f xs) \<Longrightarrow> a \<in> set xs \<Longrightarrow> filter (\<lambda>x. f x = f a) xs = [a]"
proof (induction xs)
  case Nil
  then show ?case by simp
next
  case (Cons x xs)
  show ?case
  proof (cases "x = a")
    case True
    have "f y \<noteq> f a" if "y \<in> set xs" for y
    proof -
      from that have "f y \<in> f ` set xs" by simp
      then show ?thesis using Cons.prems(1) True by auto
    qed
    then have "filter (\<lambda>y. f y = f a) xs = []"
      by (simp add: filter_empty_conv)
    then show ?thesis using True by simp
  next
    case False
    then have "a \<in> set xs" using Cons.prems(2) by simp
    moreover have "f x \<noteq> f a" using Cons.prems(1) \<open>a \<in> set xs\<close> by auto
    ultimately show ?thesis using Cons by simp
  qed
qed

lemma status_text_cases: "status_text g = ''graded'' \<or> status_text g = ''returned''"
  by (cases g) simp_all

lemma set_replace_row: "set (replace_row sid new rows) \<subseteq> insert new (set rows)"
  by (auto simp: replace_row_def)

lemmas school_defs = school_def homework1_def homework2_def late_work_def grade85_def
  graded_school_def second_attempt_def recorded_def

lemmas view_defs = student_assignment_progress_def left_join_def progress_row_of_def

lemmas policy_defs = is_admin_def is_course_instructor_def is_actively_enrolled_def
  instructs_assignment_def submissions_insert_check_def submissions_update_own_def
  submissions_update_using_def submissions_update_check_def submissions_delete_using_def
  submissions_teachers_def submissions_select_def submissions_select_own_def
  assignments_select_def assignments_select_students_def assignments_select_teachers_def

lemmas constraint_defs = submissions_constraints_def submissions_status_check_def
  submissions_score_check_def submissions_unique_violated_def submissions_fkeys_def

lemmas op_defs = insert_submission_def update_submission_def delete_submission_def
  read_submission_def read_assignment_def select_assignments_def select_submissions_def
  replace_row_def new_row_def status_default_def onSubmit_def submissionData_def
  newSubmissionData_def

section \<open>Rows of the view, and the tables after an operation\<close>

lemma left_join_mem:
  "so \<in> set (left_join xs) \<longleftrightarrow> (xs = [] \<and> so = None) \<or> (\<exists>x\<in>set xs. so = Some x)"
  by (auto simp: left_join_def)

lemma view_rowD:
  assumes "v \<in> set (student_assignment_progress d)"
  shows "\<exists>p a so. p \<in> set (profiles d) \<and> a \<in> set (assignments d) \<and>
    v = progress_row_of p a so \<and>
    so \<in> set (left_join (filter (\<lambda>s. s_user_id s = p_id p \<and> s_assignment_id s = a_id a)
                             (submissions d))) \<and>
    p_role p = ''student'' \<and> a_status a = ''published''"
  using assms unfolding student_assignment_progress_def
  by (fastforce split: if_splits)

lemma view_row_joined:
  assumes v: "v \<in> set (student_assignment_progress d)"
    and r: "r \<in> set (submissions d)" "s_user_id r = v_student_id v"
      "s_assignment_id r = v_assignment_id v"
    and only: "\<And>r'. r' \<in> set (submissions d) \<Longrightarrow> s_user_id r' = s_user_id r \<Longrightarrow>
                 s_assignment_id r' = s_assignment_id r \<Longrightarrow> r' = r"
  obtains p a where "a \<in> set (assignments d)" "v = progress_row_of p a (Some r)"
proof -
  from v obtain p a so where pa: "p \<in> set (profiles d)" "a \<in> set (assignments d)"
    "v = progress_row_of p a so"
    "so \<in> set (left_join (filter (\<lambda>s. s_user_id s = p_id p \<and> s_assignment_id s = a_id a)
                             (submissions d)))"
    using view_rowD by blast
  have ids: "p_id p = s_user_id r" "a_id a = s_assignment_id r"
    using pa(3) r(2,3) by (simp_all add: progress_row_of_def)
  have "r \<in> set (filter (\<lambda>s. s_user_id s = p_id p \<and> s_assignment_id s = a_id a) (submissions d))"
    using r(1) ids by simp
  then obtain r' where r': "so = Some r'" "r' \<in> set (submissions d)"
    "s_user_id r' = p_id p" "s_assignment_id r' = a_id a"
    using pa(4) by (auto simp: left_join_mem filter_empty_conv)
  then have "r' = r" using only[of r'] ids by simp
  then show ?thesis using that pa(2,3) r'(1) by simp
qed

lemma replace_row_mem:
  "r \<in> set (replace_row sid new rows) \<Longrightarrow> r = new \<or> (r \<in> set rows \<and> s_id r \<noteq> sid)"
  by (auto simp: replace_row_def split: if_splits)

lemma replace_row_new:
  "find (\<lambda>s. s_id s = sid) rows = Some old \<Longrightarrow> new \<in> set (replace_row sid new rows)"
  by (induction rows) (auto simp: replace_row_def split: if_splits)

lemma unique_not_violatedD:
  "\<not> submissions_unique_violated rows s \<Longrightarrow> r \<in> set rows \<Longrightarrow>
   s_id r \<noteq> s_id s \<and> \<not> (s_assignment_id r = s_assignment_id s \<and> s_user_id r = s_user_id s)"
  by (auto simp: submissions_unique_violated_def list_ex_iff)

text \<open>A successful update either touched no row or replaced the row it found.\<close>

lemma update_submission_InrD:
  assumes "update_submission d uid sid upd = Inr d'"
  obtains (untouched) "d' = d"
  | (replaced) old where "find (\<lambda>s. s_id s = sid) (submissions d) = Some old"
    "submissions_update_using d uid old" "submissions_update_check d uid (upd old)"
    "submissions_constraints d (filter (\<lambda>s. s_id s \<noteq> sid) (submissions d)) (upd old)"
    "d' = d\<lparr>submissions := replace_row sid (upd old) (submissions d)\<rparr>"
  using assms by (auto simp: update_submission_def split: option.splits if_splits)

lemma insert_submission_InrD:
  assumes "insert_submission d uid nid i = Inr d'"
  shows "submissions_insert_check d uid (new_row nid i) \<and>
         submissions_constraints d (submissions d) (new_row nid i) \<and>
         d' = d\<lparr>submissions := submissions d @ [new_row nid i]\<rparr>"
  using assms by (auto simp: insert_submission_def Let_def split: if_splits)

lemma replace_row_absent:
  "sid \<notin> s_id ` set rows \<Longrightarrow> replace_row sid new rows = rows"
  by (induction rows) (auto simp: replace_row_def)

lemma distinct_map_replace_row:
  assumes "distinct (map s_id rows)" "distinct (map f rows)"
    and "\<And>r. r \<in> set rows \<Longrightarrow> s_id r \<noteq> sid \<Longrightarrow> f r \<noteq> f new"
  shows "distinct (map f (replace_row sid new rows))"
  using assms
proof (induction rows)
  case Nil
  then show ?case by (simp add: replace_row_def)
next
  case (Cons x xs)
  show ?case
  proof (cases "s_id x = sid")
    case True
    then have "sid \<notin> s_id ` set xs" using Cons.prems(1) by auto
    then have "replace_row sid new (x # xs) = new # xs"
      using True replace_row_absent[of sid xs new] by (simp add: replace_row_def)
    moreover have "f new \<notin> f ` set xs"
    proof
      assume "f new \<in> f ` set xs"
      then obtain r where r: "r \<in> set xs" "f r = f new" by auto
      then have "s_id r \<noteq> sid" using \<open>sid \<notin> s_id ` set xs\<close> by auto
      then show False using Cons.prems(3)[of r] r by simp
    qed
    ultimately show ?thesis using Cons.prems(2) by simp
  next
    case False
    have ih: "distinct (map f (replace_row sid new xs))"
      using Cons.IH Cons.prems by simp
    have "f x \<notin> f ` set (replace_row sid new xs)"
    proof
      assume "f x \<in> f ` set (replace_row sid new xs)"
      then obtain r where r: "r \<in> set (replace_row sid new xs)" "f r = f x" by auto
      then have "r = new \<or> r \<in> set xs" using replace_row_mem by blast
      then show False
      proof
        assume "r = new"
        then show False using r(2) False Cons.prems(3)[of x] by simp
      next
        assume "r \<in> set xs"
        then have "f x \<in> f ` set xs" using r(2)[symmetric] by (rule image_eqI[rotated])
        then show False using Cons.prems(2) by simp
      qed
    qed
    moreover have "replace_row sid new (x # xs) = x # replace_row sid new xs"
      using False by (simp add: replace_row_def)
    ultimately show ?thesis using ih by simp
  qed
qed

lemma insert_preserves_wf:
  assumes "wf_submissions (submissions d)" "insert_submission d uid nid i = Inr d'"
  shows "wf_submissions (submissions d')"
proof -
  from insert_submission_InrD[OF assms(2)] have
    c: "\<not> submissions_unique_violated (submissions d) (new_row nid i)"
    and d': "submissions d' = submissions d @ [new_row nid i]"
    by (simp_all add: submissions_constraints_def)
  have "s_id (new_row nid i) \<notin> s_id ` set (submissions d)"
    "submission_key (new_row nid i) \<notin> submission_key ` set (submissions d)"
    using c by (auto simp: submissions_unique_violated_def list_ex_iff submission_key_def)
  then show ?thesis using assms(1) d' by (simp add: wf_submissions_def)
qed

lemma update_preserves_wf:
  assumes "wf_submissions (submissions d)" "update_submission d uid sid upd = Inr d'"
  shows "wf_submissions (submissions d')"
proof -
  from assms(2) show ?thesis
  proof (cases rule: update_submission_InrD)
    case untouched
    then show ?thesis using assms(1) by simp
  next
    case (replaced old)
    note c = replaced(4) and d' = replaced(5)
    have u: "\<not> submissions_unique_violated (filter (\<lambda>s. s_id s \<noteq> sid) (submissions d))
               (upd old)"
      using c by (simp add: submissions_constraints_def)
    have 1: "s_id r \<noteq> s_id (upd old)" and 2: "submission_key r \<noteq> submission_key (upd old)"
      if "r \<in> set (submissions d)" "s_id r \<noteq> sid" for r
      using unique_not_violatedD[OF u, of r] that by (auto simp: submission_key_def)
    show ?thesis
      using assms(1) d' distinct_map_replace_row[of "submissions d" s_id sid "upd old"]
        distinct_map_replace_row[of "submissions d" submission_key sid "upd old"] 1 2
      by (simp add: wf_submissions_def)
  qed
qed

lemma delete_preserves_wf:
  assumes "wf_submissions (submissions d)" "delete_submission d uid sid = Inr d'"
  shows "wf_submissions (submissions d')"
proof -
  from assms(2) have "d' = d \<or> submissions d' = filter (\<lambda>s. s_id s \<noteq> sid) (submissions d)"
    by (auto simp: delete_submission_def split: option.splits if_splits)
  then show ?thesis using assms(1) by (auto simp: wf_submissions_def distinct_map_filter)
qed

lemma wf_submissions_unique:
  assumes "wf_submissions rows" "r \<in> set rows" "r' \<in> set rows"
    "s_assignment_id r = s_assignment_id r'" "s_user_id r = s_user_id r'"
  shows "r = r'"
proof -
  have "inj_on submission_key (set rows)"
    using assms(1) by (simp add: wf_submissions_def distinct_map)
  moreover have "submission_key r = submission_key r'"
    using assms(4,5) by (simp add: submission_key_def)
  ultimately show ?thesis using assms(2,3) by (auto dest: inj_onD)
qed

lemma insert_existing_pair:
  assumes "r \<in> set (submissions d)" "s_assignment_id r = i_assignment_id i"
    "s_user_id r = i_user_id i"
  shows "insert_submission d uid nid i =
           (if submissions_insert_check d uid (new_row nid i) then Inl ValidationFailed
            else Inl AuthorizationDenied)"
proof -
  have "submissions_unique_violated (submissions d) (new_row nid i)"
    using assms by (auto simp: submissions_unique_violated_def list_ex_iff new_row_def)
  then show ?thesis by (simp add: insert_submission_def submissions_constraints_def)
qed

lemma insert_check_pair:
  "s_assignment_id s' = s_assignment_id s \<Longrightarrow> s_user_id s' = s_user_id s \<Longrightarrow>
   submissions_insert_check d uid s' = submissions_insert_check d uid s"
  by (simp add: submissions_insert_check_def)

lemma insert_check_submissions:
  "submissions_insert_check (d\<lparr>submissions := rows\<rparr>) uid s = submissions_insert_check d uid s"
  by (simp add: submissions_insert_check_def)

lemma score_check_iff:
  "submissions_score_check s \<longleftrightarrow> s_score s = None \<or> (\<exists>n. s_score s = Some n \<and> 0 \<le> n \<and> n \<le> 100)"
  by (auto simp: submissions_score_check_def split: option.splits)


section \<open>Creating a submission\<close>

text \<open>
  C5. Every attempt to create a submission by a caller who is not actively enrolled in
  the course of the assignment, or against an assignment that is not \<open>published\<close>, is
  rejected with \<open>AuthorizationDenied\<close>; no state is returned, so no row is created.
  The hypothesis ranges over the rows of \<open>assignments\<close> with the id the new row names.
\<close>

theorem insert_denied_unless_enrolled_published:
  assumes "\<forall>a\<in>set (assignments d). a_id a = i_assignment_id i \<longrightarrow>
             \<not> is_actively_enrolled d uid (a_course_id a) \<or> a_status a \<noteq> ''published''"
  shows "insert_submission d uid nid i = Inl AuthorizationDenied"
proof -
  have "\<not> submissions_insert_check d uid (new_row nid i)"
    using assms by (auto simp: submissions_insert_check_iff new_row_def)
  then show ?thesis by (simp add: insert_submission_def)
qed

text \<open>
  Teacher 3 is not enrolled in course 100; student 2 is, but \<open>homework2\<close> is a draft.
\<close>

theorem insert_denied_unless_enrolled_published_witness:
  "\<not> is_actively_enrolled school 3 100 \<and> a_status homework2 \<noteq> ''published'' \<and>
   insert_submission school 3 51
     \<lparr>i_assignment_id = 10, i_user_id = 3, i_submitted_at = Some 1736400000, i_file_url = None,
      i_answer_text = None, i_score = None, i_feedback = None, i_status = None,
      i_graded_by = None, i_graded_at = None\<rparr> = Inl AuthorizationDenied \<and>
   insert_submission school 2 51
     \<lparr>i_assignment_id = 11, i_user_id = 2, i_submitted_at = Some 1736400000, i_file_url = None,
      i_answer_text = None, i_score = None, i_feedback = None, i_status = None,
      i_graded_by = None, i_graded_at = None\<rparr> = Inl AuthorizationDenied"
  using insert_denied_unless_enrolled_published[of school
      "\<lparr>i_assignment_id = 10, i_user_id = 3, i_submitted_at = Some 1736400000, i_file_url = None,
        i_answer_text = None, i_score = None, i_feedback = None, i_status = None,
        i_graded_by = None, i_graded_at = None\<rparr>" 3 51]
    insert_denied_unless_enrolled_published[of school
      "\<lparr>i_assignment_id = 11, i_user_id = 2, i_submitted_at = Some 1736400000, i_file_url = None,
        i_answer_text = None, i_score = None, i_feedback = None, i_status = None,
        i_graded_by = None, i_graded_at = None\<rparr>" 2 51]
  by (simp add: school_defs is_actively_enrolled_def)

section \<open>Reading an assignment\<close>

text \<open>
  C7. For an assignment row \<open>a\<close> of the table and any caller, the read returns the row
  if and only if the assignment is \<open>published\<close> and the caller is actively enrolled in
  its course, or the caller is the instructor of the course, or the caller is an
  admin. The filtered table read agrees; under the primary key the read by id returns
  the row alone or nothing; and a \<open>draft\<close> or \<open>archived\<close> assignment is invisible to an
  enrolled caller who is neither instructor nor admin.
\<close>

theorem assignment_read_iff:
  assumes "find (\<lambda>a. a_id a = aid) (assignments d) = Some a"
  shows "(a \<in> set (read_assignment d uid aid) \<longleftrightarrow>
            (a_status a = ''published'' \<and>
             (\<exists>e\<in>set (enrollments d). e_course_id e = a_course_id a \<and> e_user_id e = uid \<and>
                e_status e = ''active'')) \<or>
            (\<exists>c\<in>set (courses d). c_id c = a_course_id a \<and> c_instructor_id c = Some uid) \<or>
            (\<exists>p\<in>set (profiles d). p_id p = uid \<and> p_role p = ''admin'')) \<and>
         (a \<in> set (select_assignments d uid) \<longleftrightarrow> a \<in> set (read_assignment d uid aid)) \<and>
         (distinct (map a_id (assignments d)) \<longrightarrow>
            read_assignment d uid aid =
              (if a \<in> set (read_assignment d uid aid) then [a] else [])) \<and>
         (a_status a \<in> {''draft'', ''archived''} \<and>
          is_actively_enrolled d uid (a_course_id a) \<and>
          \<not> is_course_instructor d uid (a_course_id a) \<and> \<not> is_admin d uid \<longrightarrow>
            a \<notin> set (read_assignment d uid aid) \<and> a \<notin> set (select_assignments d uid))"
proof -
  have mem: "a \<in> set (assignments d)" "a_id a = aid"
    using find_SomeD[OF assms] by simp_all
  have sel: "assignments_select d uid a \<longleftrightarrow>
            (a_status a = ''published'' \<and>
             (\<exists>e\<in>set (enrollments d). e_course_id e = a_course_id a \<and> e_user_id e = uid \<and>
                e_status e = ''active'')) \<or>
            (\<exists>c\<in>set (courses d). c_id c = a_course_id a \<and> c_instructor_id c = Some uid) \<or>
            (\<exists>p\<in>set (profiles d). p_id p = uid \<and> p_role p = ''admin'')"
    by (simp add: assignments_select_def assignments_select_students_def
        assignments_select_teachers_def is_actively_enrolled_iff is_course_instructor_iff
        is_admin_iff)
  have rd: "a \<in> set (read_assignment d uid aid) \<longleftrightarrow> assignments_select d uid a"
    using mem by (simp add: read_assignment_def select_assignments_def)
  have tb: "a \<in> set (select_assignments d uid) \<longleftrightarrow> assignments_select d uid a"
    using mem by (simp add: select_assignments_def)
  have pk: "read_assignment d uid aid = (if assignments_select d uid a then [a] else [])"
    if "distinct (map a_id (assignments d))"
  proof -
    have "filter (\<lambda>x. a_id x = aid) (assignments d) = [a]"
      using filter_key_single[OF that mem(1)] mem(2) by simp
    moreover have "read_assignment d uid aid =
        filter (assignments_select d uid) (filter (\<lambda>x. a_id x = aid) (assignments d))"
      by (simp add: read_assignment_def select_assignments_def conj_commute)
    ultimately show ?thesis by simp
  qed
  have st: "a_status a \<in> {''draft'', ''archived''} \<Longrightarrow>
            \<not> is_course_instructor d uid (a_course_id a) \<Longrightarrow> \<not> is_admin d uid \<Longrightarrow>
            \<not> assignments_select d uid a"
    by (auto simp: assignments_select_def assignments_select_students_def
        assignments_select_teachers_def)
  show ?thesis
    unfolding rd tb using sel pk st by auto
qed

text \<open>
  Student 2 reads the published \<open>homework1\<close> but not the draft \<open>homework2\<close>, which the
  instructor of the course reads.
\<close>

theorem assignment_read_iff_witness:
  "find (\<lambda>a. a_id a = 10) (assignments school) = Some homework1 \<and>
   read_assignment school 2 10 = [homework1] \<and>
   find (\<lambda>a. a_id a = 11) (assignments school) = Some homework2 \<and>
   a_status homework2 \<in> {''draft'', ''archived''} \<and>
   is_actively_enrolled school 2 (a_course_id homework2) \<and>
   read_assignment school 2 11 = [] \<and>
   read_assignment school 1 11 = [homework2]"
proof -
  have f1: "find (\<lambda>a. a_id a = 10) (assignments school) = Some homework1"
    by (simp add: school_defs)
  have f2: "find (\<lambda>a. a_id a = 11) (assignments school) = Some homework2"
    by (simp add: school_defs)
  have pk: "distinct (map a_id (assignments school))"
    by (simp add: school_defs)
  have en: "is_actively_enrolled school 2 100" "\<not> is_course_instructor school 2 100"
    "\<not> is_admin school 2" "is_course_instructor school 1 100"
    by (simp_all add: school_defs policy_defs)
  have c: "a_course_id homework1 = 100" "a_course_id homework2 = 100"
    "a_status homework1 = ''published''" "a_status homework2 = ''draft''"
    by (simp_all add: school_defs)
  have m1: "homework1 \<in> set (read_assignment school 2 10)"
    using assignment_read_iff[OF f1, of 2, THEN conjunct1] en c
    by (simp add: is_actively_enrolled_iff)
  have r1: "read_assignment school 2 10 = [homework1]"
    using assignment_read_iff[OF f1, of 2, THEN conjunct2, THEN conjunct2, THEN conjunct1]
      pk m1 by simp
  have m2: "homework2 \<notin> set (read_assignment school 2 11)"
    using assignment_read_iff[OF f2, of 2, THEN conjunct2, THEN conjunct2, THEN conjunct2]
      en c by simp
  have r2: "read_assignment school 2 11 = []"
    using assignment_read_iff[OF f2, of 2, THEN conjunct2, THEN conjunct2, THEN conjunct1]
      pk m2 by simp
  have m3: "homework2 \<in> set (read_assignment school 1 11)"
    using assignment_read_iff[OF f2, of 1, THEN conjunct1] en c
    by (simp add: is_course_instructor_iff)
  have r3: "read_assignment school 1 11 = [homework2]"
    using assignment_read_iff[OF f2, of 1, THEN conjunct2, THEN conjunct2, THEN conjunct1]
      pk m3 by simp
  show ?thesis using f1 f2 r1 r2 r3 en c by simp
qed

section \<open>The student's edit window\<close>

text \<open>
  C4, as amended. For every submission row and every update attempted by its owner,
  when the owner is neither an admin nor the instructor of the course (of the old or
  of the updated row). While the row's status is in \<open>{pending, submitted, late}\<close> the
  update is permitted exactly when the updated row still belongs to the caller and
  still has a status in \<open>{pending, submitted, late}\<close>: it then succeeds when the table
  constraints hold and is \<open>ValidationFailed\<close> otherwise, and an update that is not
  permitted is \<open>AuthorizationDenied\<close>. Once the status is \<open>graded\<close> or \<open>returned\<close> the
  owner has no write access: the policies hide the row from the update, which changes
  nothing, and the store raises no error.
\<close>

theorem student_update_window:
  assumes found: "find (\<lambda>s. s_id s = sid) (submissions d) = Some old"
    and owner: "s_user_id old = uid"
    and student: "\<not> is_admin d uid" "\<not> instructs_assignment d uid (s_assignment_id old)"
      "\<not> instructs_assignment d uid (s_assignment_id (upd old))"
  shows "update_submission d uid sid upd =
           (if s_status old \<in> {''pending'', ''submitted'', ''late''}
            then (if s_user_id (upd old) = uid \<and>
                     s_status (upd old) \<in> {''pending'', ''submitted'', ''late''}
                  then (if submissions_constraints d
                             (filter (\<lambda>s. s_id s \<noteq> sid) (submissions d)) (upd old)
                        then Inr (d\<lparr>submissions := replace_row sid (upd old) (submissions d)\<rparr>)
                        else Inl ValidationFailed)
                  else Inl AuthorizationDenied)
            else Inr d) \<and>
         (s_status old \<in> {''graded'', ''returned''} \<longrightarrow>
            update_submission d uid sid upd = Inr d)"
proof -
  have u: "submissions_update_using d uid old \<longleftrightarrow>
             s_status old \<in> {''pending'', ''submitted'', ''late''}"
    using owner student
    by (simp add: submissions_update_using_def submissions_update_own_def
        submissions_teachers_def)
  have c: "submissions_update_check d uid (upd old) \<longleftrightarrow>
             s_user_id (upd old) = uid \<and>
             s_status (upd old) \<in> {''pending'', ''submitted'', ''late''}"
    using student
    by (simp add: submissions_update_check_def submissions_update_own_def
        submissions_teachers_def)
  have g: "s_status old \<in> {''graded'', ''returned''} \<Longrightarrow>
             s_status old \<notin> {''pending'', ''submitted'', ''late''}"
    by auto
  show ?thesis
    using g by (simp only: update_submission_found[OF found] u c) auto
qed

text \<open>
  Student 2 corrects the answer of the ungraded \<open>late_work\<close>; once it is graded the
  same update leaves the table as it was.
\<close>

theorem student_update_window_witness:
  "find (\<lambda>s. s_id s = 50) (submissions school) = Some late_work \<and>
   s_user_id late_work = 2 \<and> \<not> is_admin school 2 \<and>
   \<not> instructs_assignment school 2 (s_assignment_id late_work) \<and>
   update_submission school 2 50 (\<lambda>s. s\<lparr>s_answer_text := Some ''x = 5''\<rparr>) =
     Inr (school\<lparr>submissions := [late_work\<lparr>s_answer_text := Some ''x = 5''\<rparr>]\<rparr>) \<and>
   s_status (submissionData grade85 1 1736600000 late_work) \<in> {''graded'', ''returned''} \<and>
   update_submission graded_school 2 50 (\<lambda>s. s\<lparr>s_answer_text := Some ''x = 5''\<rparr>) =
     Inr graded_school"
proof -
  have a: "find (\<lambda>s. s_id s = 50) (submissions school) = Some late_work \<and>
     s_user_id late_work = 2 \<and> \<not> is_admin school 2 \<and>
     \<not> instructs_assignment school 2 (s_assignment_id late_work) \<and>
     update_submission school 2 50 (\<lambda>s. s\<lparr>s_answer_text := Some ''x = 5''\<rparr>) =
       Inr (school\<lparr>submissions := [late_work\<lparr>s_answer_text := Some ''x = 5''\<rparr>]\<rparr>)"
    using student_update_window[of 50 school late_work 2
        "\<lambda>s. s\<lparr>s_answer_text := Some ''x = 5''\<rparr>"]
    by (simp add: school_defs policy_defs constraint_defs replace_row_def)
  have b: "s_status (submissionData grade85 1 1736600000 late_work) \<in> {''graded'', ''returned''} \<and>
     update_submission graded_school 2 50 (\<lambda>s. s\<lparr>s_answer_text := Some ''x = 5''\<rparr>) =
       Inr graded_school"
    using student_update_window[of 50 graded_school
        "submissionData grade85 1 1736600000 late_work" 2
        "\<lambda>s. s\<lparr>s_answer_text := Some ''x = 5''\<rparr>"]
    by (simp add: school_defs policy_defs submissionData_def)
  show ?thesis using a b by simp
qed

text \<open>
  The claim as stated fails twice. The owner's update of an ungraded row is not always
  permitted: student 2 marking the own submission \<open>graded\<close> is refused by the
  \<open>WITH CHECK\<close> clause. And the owner's update of a graded row does not fail with
  \<open>AuthorizationDenied\<close>: it touches no row and no error is raised.
\<close>

theorem student_self_grading_counterexample:
  "find (\<lambda>s. s_id s = 50) (submissions school) = Some late_work \<and>
   s_user_id late_work = 2 \<and> s_status late_work = ''submitted'' \<and>
   update_submission school 2 50 (\<lambda>s. s\<lparr>s_status := ''graded''\<rparr>) = Inl AuthorizationDenied \<and>
   find (\<lambda>s. s_id s = 50) (submissions graded_school) =
     Some (submissionData grade85 1 1736600000 late_work) \<and>
   s_user_id (submissionData grade85 1 1736600000 late_work) = 2 \<and>
   s_status (submissionData grade85 1 1736600000 late_work) = ''graded'' \<and>
   update_submission graded_school 2 50 (\<lambda>s. s\<lparr>s_answer_text := Some ''x = 5''\<rparr>) =
     Inr graded_school"
  by (simp add: school_defs policy_defs op_defs)

section \<open>The instructor's access to submissions\<close>

text \<open>
  C8, as amended. For a submission \<open>s\<close> attached to an assignment of a course: the
  instructor of that course, and any admin, reads it, deletes it and updates it (an
  update that leaves the row under the same assignment passes the policies; it then
  succeeds when the table constraints hold). For a caller who is not the instructor of
  that course, not the owner of the row and not an admin, whatever other course the
  caller instructs, the policies hide the row: the read does not return it, and every
  update and the delete leave the table as it was. The store raises no error for a
  hidden row; under the primary key the read by id returns the row alone or nothing.
\<close>

theorem instructor_submission_access:
  assumes found: "find (\<lambda>t. s_id t = sid) (submissions d) = Some s"
  shows "((\<exists>a\<in>set (assignments d). a_id a = s_assignment_id s \<and>
            (\<exists>c\<in>set (courses d). c_id c = a_course_id a \<and> c_instructor_id c = Some uid)) \<or>
          (\<exists>p\<in>set (profiles d). p_id p = uid \<and> p_role p = ''admin'') \<longrightarrow>
            s \<in> set (read_submission d uid sid) \<and>
            delete_submission d uid sid =
              Inr (d\<lparr>submissions := filter (\<lambda>t. s_id t \<noteq> sid) (submissions d)\<rparr>) \<and>
            (s_assignment_id (upd s) = s_assignment_id s \<longrightarrow>
               update_submission d uid sid upd =
                 (if submissions_constraints d (filter (\<lambda>t. s_id t \<noteq> sid) (submissions d))
                      (upd s)
                  then Inr (d\<lparr>submissions := replace_row sid (upd s) (submissions d)\<rparr>)
                  else Inl ValidationFailed))) \<and>
         (\<not> (\<exists>a\<in>set (assignments d). a_id a = s_assignment_id s \<and>
            (\<exists>c\<in>set (courses d). c_id c = a_course_id a \<and> c_instructor_id c = Some uid)) \<and>
          s_user_id s \<noteq> uid \<and>
          \<not> (\<exists>p\<in>set (profiles d). p_id p = uid \<and> p_role p = ''admin'') \<longrightarrow>
            s \<notin> set (read_submission d uid sid) \<and>
            s \<notin> set (select_submissions d uid) \<and>
            update_submission d uid sid upd = Inr d \<and>
            delete_submission d uid sid = Inr d) \<and>
         (distinct (map s_id (submissions d)) \<longrightarrow>
            read_submission d uid sid =
              (if s \<in> set (read_submission d uid sid) then [s] else []))"
proof -
  have mem: "s \<in> set (submissions d)" "s_id s = sid"
    using find_SomeD[OF found] by simp_all
  have t: "submissions_teachers d uid s \<longleftrightarrow>
             (\<exists>a\<in>set (assignments d). a_id a = s_assignment_id s \<and>
            (\<exists>c\<in>set (courses d). c_id c = a_course_id a \<and> c_instructor_id c = Some uid)) \<or>
             (\<exists>p\<in>set (profiles d). p_id p = uid \<and> p_role p = ''admin'')"
    by (simp add: submissions_teachers_def instructs_assignment_iff is_admin_iff)
  have t': "s_assignment_id (upd s) = s_assignment_id s \<Longrightarrow>
              submissions_teachers d uid (upd s) = submissions_teachers d uid s"
    by (simp add: submissions_teachers_def)
  have sl: "s \<in> set (select_submissions d uid) \<longleftrightarrow>
              s_user_id s = uid \<or> submissions_teachers d uid s"
    using mem
    by (simp add: select_submissions_def submissions_select_def submissions_select_own_def)
  have rd: "s \<in> set (read_submission d uid sid) \<longleftrightarrow>
              s_user_id s = uid \<or> submissions_teachers d uid s"
    using mem sl by (simp add: read_submission_def)
  have pk: "read_submission d uid sid =
              (if s \<in> set (read_submission d uid sid) then [s] else [])"
    if "distinct (map s_id (submissions d))"
  proof -
    have "filter (\<lambda>x. s_id x = sid) (submissions d) = [s]"
      using filter_key_single[OF that mem(1)] mem(2) by simp
    moreover have "read_submission d uid sid =
        filter (submissions_select d uid) (filter (\<lambda>x. s_id x = sid) (submissions d))"
      by (simp add: read_submission_def select_submissions_def conj_commute)
    ultimately show ?thesis by simp
  qed
  have del: "delete_submission d uid sid =
               (if submissions_teachers d uid s
                then Inr (d\<lparr>submissions := filter (\<lambda>t. s_id t \<noteq> sid) (submissions d)\<rparr>)
                else Inr d)"
    by (simp add: delete_submission_found[OF found] submissions_delete_using_def)
  have upd_yes: "submissions_teachers d uid s \<Longrightarrow>
      s_assignment_id (upd s) = s_assignment_id s \<Longrightarrow>
      update_submission d uid sid upd =
        (if submissions_constraints d (filter (\<lambda>t. s_id t \<noteq> sid) (submissions d)) (upd s)
         then Inr (d\<lparr>submissions := replace_row sid (upd s) (submissions d)\<rparr>)
         else Inl ValidationFailed)"
    using t' by (simp add: update_submission_found[OF found] submissions_update_using_def
        submissions_update_check_def)
  have upd_no: "\<not> submissions_teachers d uid s \<Longrightarrow> s_user_id s \<noteq> uid \<Longrightarrow>
      update_submission d uid sid upd = Inr d"
    by (simp add: update_submission_found[OF found] submissions_update_using_def
        submissions_update_own_def)
  have 1: "submissions_teachers d uid s \<Longrightarrow>
            s \<in> set (read_submission d uid sid) \<and>
            delete_submission d uid sid =
              Inr (d\<lparr>submissions := filter (\<lambda>t. s_id t \<noteq> sid) (submissions d)\<rparr>) \<and>
            (s_assignment_id (upd s) = s_assignment_id s \<longrightarrow>
               update_submission d uid sid upd =
                 (if submissions_constraints d (filter (\<lambda>t. s_id t \<noteq> sid) (submissions d))
                      (upd s)
                  then Inr (d\<lparr>submissions := replace_row sid (upd s) (submissions d)\<rparr>)
                  else Inl ValidationFailed))"
    using rd del upd_yes by simp
  have 2: "\<not> submissions_teachers d uid s \<Longrightarrow> s_user_id s \<noteq> uid \<Longrightarrow>
            s \<notin> set (read_submission d uid sid) \<and>
            s \<notin> set (select_submissions d uid) \<and>
            update_submission d uid sid upd = Inr d \<and>
            delete_submission d uid sid = Inr d"
    using rd sl del upd_no by simp
  show ?thesis
    using 1 2 pk unfolding t by blast
qed

text \<open>
  Teacher 1 instructs course 100 and reads, grades and deletes \<open>late_work\<close>; teacher 3
  instructs course 200: the row is hidden, and the update and the delete touch nothing.
\<close>

theorem instructor_submission_access_witness:
  "find (\<lambda>t. s_id t = 50) (submissions school) = Some late_work \<and>
   read_submission school 1 50 = [late_work] \<and>
   delete_submission school 1 50 = Inr (school\<lparr>submissions := []\<rparr>) \<and>
   update_submission school 1 50 (submissionData grade85 1 1736600000) = Inr graded_school \<and>
   is_course_instructor school 3 200 \<and>
   read_submission school 3 50 = [] \<and>
   update_submission school 3 50 (submissionData grade85 3 1736600000) = Inr school \<and>
   delete_submission school 3 50 = Inr school"
proof -
  have f: "find (\<lambda>t. s_id t = 50) (submissions school) = Some late_work"
    by (simp add: school_defs)
  have pk: "distinct (map s_id (submissions school))"
    by (simp add: school_defs)
  have i1: "\<exists>a\<in>set (assignments school). a_id a = s_assignment_id late_work \<and>
              (\<exists>c\<in>set (courses school). c_id c = a_course_id a \<and> c_instructor_id c = Some 1)"
    by (simp add: school_defs)
  have i3: "\<not> (\<exists>a\<in>set (assignments school). a_id a = s_assignment_id late_work \<and>
              (\<exists>c\<in>set (courses school). c_id c = a_course_id a \<and> c_instructor_id c = Some 3))"
    "s_user_id late_work \<noteq> 3"
    "\<not> (\<exists>p\<in>set (profiles school). p_id p = 3 \<and> p_role p = ''admin'')"
    "is_course_instructor school 3 200"
    by (simp_all add: school_defs is_course_instructor_def)
  have same: "s_assignment_id (submissionData grade85 1 1736600000 late_work) =
                s_assignment_id late_work"
    by (simp add: submissionData_def)
  have cs: "submissions_constraints school (filter (\<lambda>t. s_id t \<noteq> 50) (submissions school))
              (submissionData grade85 1 1736600000 late_work)"
    by (simp add: school_defs constraint_defs submissionData_def)
  have ev: "school\<lparr>submissions := filter (\<lambda>t. s_id t \<noteq> 50) (submissions school)\<rparr> =
              school\<lparr>submissions := []\<rparr>"
    "school\<lparr>submissions := replace_row 50 (submissionData grade85 1 1736600000 late_work)
        (submissions school)\<rparr> = graded_school"
    by (simp_all add: school_defs replace_row_def)
  note t1 = instructor_submission_access[OF f, of 1 "submissionData grade85 1 1736600000"]
  note t3 = instructor_submission_access[OF f, of 3 "submissionData grade85 3 1736600000"]
  have y: "late_work \<in> set (read_submission school 1 50)"
    "delete_submission school 1 50 = Inr (school\<lparr>submissions := []\<rparr>)"
    "update_submission school 1 50 (submissionData grade85 1 1736600000) = Inr graded_school"
    using t1[THEN conjunct1] i1 same cs ev by simp_all
  have r1: "read_submission school 1 50 = [late_work]"
    using t1[THEN conjunct2, THEN conjunct2] pk y(1) by simp
  have n: "late_work \<notin> set (read_submission school 3 50)"
    "update_submission school 3 50 (submissionData grade85 3 1736600000) = Inr school"
    "delete_submission school 3 50 = Inr school"
    using t3[THEN conjunct2, THEN conjunct1] i3 by simp_all
  have r3: "read_submission school 3 50 = []"
    using t3[THEN conjunct2, THEN conjunct2] pk n(1) by simp
  show ?thesis using f y r1 i3(4) n r3 by simp
qed

text \<open>
  The claim as stated fails: the instructor of another course is not answered
  \<open>AuthorizationDenied\<close>. Teacher 3, who instructs course 200, is not the owner and is
  no admin, reads no row, and the update and the delete return without an error and
  without effect; the grading form then reports success.
\<close>

theorem other_instructor_no_error_counterexample:
  "find (\<lambda>t. s_id t = 50) (submissions school) = Some late_work \<and>
   is_course_instructor school 3 200 \<and> s_user_id late_work = 2 \<and>
   \<not> is_admin school 3 \<and> \<not> instructs_assignment school 3 10 \<and>
   read_submission school 3 50 = [] \<and>
   update_submission school 3 50 (submissionData grade85 3 1736600000) = Inr school \<and>
   delete_submission school 3 50 = Inr school \<and>
   onSubmit school (Some 3) (Some 10) (Some 2) (Some late_work) 51 1736600000 grade85 =
     Inr school"
  by (simp add: school_defs policy_defs op_defs)

section \<open>The statuses the application writes\<close>

text \<open>
  C10. The grading form is the only writer of \<open>submissions\<close>; the status it writes,
  on the update of an existing row and on the insert of a new one, is \<open>graded\<close> or
  \<open>returned\<close>; a row inserted without a status gets the default \<open>pending\<close>. So a
  successful \<open>onSubmit\<close> leaves no row with the status \<open>late\<close> or \<open>submitted\<close> in the
  table that was not there before: the application never writes these two statuses.
\<close>

theorem write_paths_never_store_late_or_submitted:
  "s_status (submissionData data u now s) \<in> {''graded'', ''returned''} \<and>
   s_status (new_row nid (newSubmissionData data u now aid stu)) \<in> {''graded'', ''returned''} \<and>
   (i_status i = None \<longrightarrow> s_status (new_row nid i) = ''pending'') \<and>
   (\<forall>d'. onSubmit d user assignment studentId submission nid now data = Inr d' \<longrightarrow>
      (\<forall>r\<in>set (submissions d'). s_status r \<in> {''late'', ''submitted''} \<longrightarrow>
         r \<in> set (submissions d)))"
proof -
  have a: "s_status (submissionData data u now s) \<in> {''graded'', ''returned''}" for u s
    using status_text_cases[of "gf_status data"] by (simp add: submissionData_def)
  have b: "s_status (new_row nid (newSubmissionData data u now aid stu)) \<in>
             {''graded'', ''returned''}" for u aid stu
    using status_text_cases[of "gf_status data"]
    by (simp add: new_row_def newSubmissionData_def)
  have c: "i_status i = None \<Longrightarrow> s_status (new_row nid i) = ''pending''"
    by (simp add: new_row_def status_default_def)
  have d: "r \<in> set (submissions d)"
    if ok: "onSubmit d user assignment studentId submission nid now data = Inr d'"
      and r: "r \<in> set (submissions d')" and st: "s_status r \<in> {''late'', ''submitted''}"
    for d' r
  proof -
    obtain u aid stu where ids: "user = Some u" "assignment = Some aid" "studentId = Some stu"
      using ok by (auto simp: onSubmit_def split: option.splits)
    show ?thesis
    proof (cases submission)
      case None
      then have "insert_submission d u nid (newSubmissionData data u now aid stu) = Inr d'"
        using ok ids by (simp add: onSubmit_def)
      then have "submissions d' =
                   submissions d @ [new_row nid (newSubmissionData data u now aid stu)]"
        by (auto simp: insert_submission_def Let_def split: if_splits)
      then show ?thesis using r st b[of u aid stu] by auto
    next
      case (Some sub)
      then have up: "update_submission d u (s_id sub) (submissionData data u now) = Inr d'"
        using ok ids by (simp add: onSubmit_def)
      from up show ?thesis
      proof (cases rule: update_submission_InrD)
        case untouched
        then show ?thesis using r by simp
      next
        case (replaced old)
        then have "submissions d' =
                     replace_row (s_id sub) (submissionData data u now old) (submissions d)"
          by simp
        then have "r = submissionData data u now old \<or> r \<in> set (submissions d)"
          using r set_replace_row[of "s_id sub" "submissionData data u now old" "submissions d"]
          by auto
        then show ?thesis using st a[of u old] by auto
      qed
    qed
  qed
  show ?thesis using a b c d by blast
qed

text \<open>
  Teacher 1 grades \<open>late_work\<close>: the stored status \<open>submitted\<close> becomes \<open>graded\<close>, and
  the table holds no \<open>late\<close> or \<open>submitted\<close> row afterwards.
\<close>

theorem write_paths_never_store_late_or_submitted_witness:
  "onSubmit school (Some 1) (Some 10) (Some 2) (Some late_work) 51 1736600000 grade85 =
     Inr graded_school \<and>
   s_status (submissionData grade85 1 1736600000 late_work) = ''graded'' \<and>
   list_all (\<lambda>r. s_status r \<notin> {''late'', ''submitted''}) (submissions graded_school)"
  using write_paths_never_store_late_or_submitted[of grade85 1 1736600000 late_work 51 10 2
      "\<lparr>i_assignment_id = 10, i_user_id = 2, i_submitted_at = None, i_file_url = None,
        i_answer_text = None, i_score = None, i_feedback = None, i_status = None,
        i_graded_by = None, i_graded_at = None\<rparr>"
      school "Some 1" "Some 10" "Some 2" "Some late_work"]
  by (simp add: school_defs policy_defs constraint_defs op_defs)

section \<open>A teacher recording a grade for a student without a submission\<close>

text \<open>
  C1. The claim: a teacher (the instructor of the course, or an admin) can create the
  submission row of a student who has none, by recording a grade. \<open>onSubmit\<close> attempts
  exactly this insert, but the only \<open>INSERT\<close> policy on \<open>submissions\<close> admits a row
  only when its \<open>user_id\<close> is the caller: for teacher 1 (the instructor) and for the
  admin 4, recording the grade of the enrolled student 5, who has no row for the
  published \<open>homework1\<close>, the insert is denied.
\<close>

theorem grading_insert_denied:
  "is_course_instructor school 1 (a_course_id homework1) \<and> is_admin school 4 \<and>
   a_id homework1 = 10 \<and> a_status homework1 = ''published'' \<and>
   is_actively_enrolled school 5 (a_course_id homework1) \<and>
   filter (\<lambda>s. s_user_id s = 5 \<and> s_assignment_id s = 10) (submissions school) = [] \<and>
   onSubmit school (Some 1) (Some 10) (Some 5) None 51 1736600000 grade85 =
     Inl AuthorizationDenied \<and>
   onSubmit school (Some 4) (Some 10) (Some 5) None 51 1736600000 grade85 =
     Inl AuthorizationDenied"
  by (simp add: school_defs policy_defs op_defs)

section \<open>Late submissions in the progress view\<close>

text \<open>
  C2, as amended. When a submission handed in at \<open>t\<close> is graded through the grading
  form by a caller whom the \<open>UPDATE\<close> policies admit to the row (the instructor of the
  course or an admin: the update then reaches the row), every row of
  \<open>student_assignment_progress\<close> for that student and assignment shows the score and
  the status written, and its \<open>progress_status\<close> is \<open>late\<close> when \<open>t\<close> is strictly after
  the due date: the \<open>CASE\<close> tests lateness before the score. It is \<open>graded\<close> only when
  the submission was handed in by the due date.
\<close>

theorem late_submission_stays_late_when_graded:
  assumes found: "find (\<lambda>s. s_id s = sid) (submissions d) = Some old"
    and handed_in: "s_submitted_at old = Some t"
    and admitted: "submissions_update_using d u old"
    and graded: "update_submission d u sid (submissionData data u now) = Inr d'"
    and row: "v \<in> set (student_assignment_progress d')"
    and who: "v_student_id v = s_user_id old" "v_assignment_id v = s_assignment_id old"
  shows "v_score v = Some (gf_score data) \<and>
         v_submission_status v = Some (status_text (gf_status data)) \<and>
         v_progress_status v = (if t > v_due_date v then ''late'' else ''graded'')"
proof -
  let ?new = "submissionData data u now old"
  from graded admitted have
    c: "submissions_constraints d (filter (\<lambda>s. s_id s \<noteq> sid) (submissions d)) ?new"
    and d': "submissions d' = replace_row sid ?new (submissions d)"
    by (auto simp: update_submission_found[OF found] split: if_splits)
  have key: "s_user_id ?new = s_user_id old" "s_assignment_id ?new = s_assignment_id old"
    by (simp_all add: submissionData_def)
  have mem: "?new \<in> set (submissions d')"
    using replace_row_new[OF found] d' by simp
  have only: "r = ?new" if "r \<in> set (submissions d')" "s_user_id r = s_user_id ?new"
    "s_assignment_id r = s_assignment_id ?new" for r
  proof (rule ccontr)
    assume "r \<noteq> ?new"
    then have "r \<in> set (filter (\<lambda>s. s_id s \<noteq> sid) (submissions d))"
      using that(1) d' replace_row_mem[of r sid ?new "submissions d"] by auto
    moreover have "\<not> submissions_unique_violated
                      (filter (\<lambda>s. s_id s \<noteq> sid) (submissions d)) ?new"
      using c by (simp add: submissions_constraints_def)
    ultimately show False
      using that(2,3) unique_not_violatedD by blast
  qed
  obtain p a where v: "v = progress_row_of p a (Some ?new)"
    using view_row_joined[OF row mem _ _ only] who key by metis
  show ?thesis
    using handed_in by (simp add: v progress_row_of_def submissionData_def)
qed


text \<open>
  The late submission of student 2, graded with 85 by teacher 1, is in the view of
  \<open>graded_school\<close> with \<open>progress_status\<close> \<open>late\<close>.
\<close>

theorem late_submission_stays_late_when_graded_witness:
  "find (\<lambda>s. s_id s = 50) (submissions school) = Some late_work \<and>
   s_submitted_at late_work = Some 1736553600 \<and>
   submissions_update_using school 1 late_work \<and>
   update_submission school 1 50 (submissionData grade85 1 1736600000) = Inr graded_school \<and>
   progress_row_of \<lparr>p_id = 2, p_full_name = ''Sam'', p_role = ''student''\<rparr> homework1
     (Some (submissionData grade85 1 1736600000 late_work))
     \<in> set (student_assignment_progress graded_school) \<and>
   v_progress_status (progress_row_of \<lparr>p_id = 2, p_full_name = ''Sam'', p_role = ''student''\<rparr>
     homework1 (Some (submissionData grade85 1 1736600000 late_work))) = ''late''"
proof -
  let ?v = "progress_row_of \<lparr>p_id = 2, p_full_name = ''Sam'', p_role = ''student''\<rparr> homework1
     (Some (submissionData grade85 1 1736600000 late_work))"
  have f: "find (\<lambda>s. s_id s = 50) (submissions school) = Some late_work"
    by (simp add: school_defs)
  have t: "s_submitted_at late_work = Some 1736553600"
    by (simp add: school_defs)
  have g: "update_submission school 1 50 (submissionData grade85 1 1736600000) = Inr graded_school"
    by (simp add: school_defs policy_defs constraint_defs op_defs)
  have ad: "submissions_update_using school 1 late_work"
    by (simp add: school_defs policy_defs)
  have v: "?v \<in> set (student_assignment_progress graded_school)"
    by (simp add: school_defs view_defs submissionData_def)
  have w: "v_student_id ?v = s_user_id late_work" "v_assignment_id ?v = s_assignment_id late_work"
    "1736553600 > v_due_date ?v"
    by (simp_all add: school_defs progress_row_of_def)
  have "v_progress_status ?v = ''late''"
    using late_submission_stays_late_when_graded[OF f t ad g v w(1,2)] w(3) by simp
  then show ?thesis using f t ad g v by simp
qed


text \<open>
  The scenario of the claim: due 2025-01-10T00:00:00Z, handed in 2025-01-11T00:00:00Z,
  the view reports \<open>late\<close>; the instructor grades with 85; the view still reports
  \<open>late\<close>, not \<open>graded\<close>.
\<close>

theorem late_graded_reports_late_counterexample:
  "a_due_date homework1 = 1736467200 \<and> s_submitted_at late_work = Some 1736553600 \<and>
   map (\<lambda>v. (v_student_id v, v_assignment_id v, v_score v, v_progress_status v))
     (student_assignment_progress school) =
     [(2, 10, None, ''late''), (5, 10, None, ''not_submitted'')] \<and>
   onSubmit school (Some 1) (Some 10) (Some 2) (Some late_work) 51 1736600000 grade85 =
     Inr graded_school \<and>
   map (\<lambda>v. (v_student_id v, v_assignment_id v, v_score v, v_progress_status v))
     (student_assignment_progress graded_school) =
     [(2, 10, Some 85, ''late''), (5, 10, None, ''not_submitted'')]"
  by (simp add: school_defs view_defs policy_defs constraint_defs op_defs)


section \<open>The score bound\<close>

text \<open>
  C3, as amended. In a table whose rows satisfy \<open>submissions_score_check\<close> every score
  is null or in \<open>[0,100]\<close>, and insert, update and delete keep it so, whatever the
  \<open>max_score\<close> of the assignment (the constraint does not read it). An insert or
  update whose row would carry a score outside \<open>[0,100]\<close> never changes the table: it
  is \<open>ValidationFailed\<close> when the row-level policies admit it; it is
  \<open>AuthorizationDenied\<close> when the new row fails \<open>WITH CHECK\<close>, which is checked before
  the constraints; and an update of a row that \<open>USING\<close> hides from the caller touches
  no row and raises no error.
\<close>

theorem score_bound_enforced:
  "(list_all submissions_score_check (submissions d) \<longrightarrow>
      (\<forall>r\<in>set (submissions d).
         s_score r = None \<or> (\<exists>n. s_score r = Some n \<and> 0 \<le> n \<and> n \<le> 100)) \<and>
      (\<forall>d'. insert_submission d uid nid i = Inr d' \<or> update_submission d uid sid upd = Inr d' \<or>
            delete_submission d uid sid = Inr d' \<longrightarrow>
            list_all submissions_score_check (submissions d'))) \<and>
   (\<forall>n. i_score i = Some n \<and> (n < 0 \<or> 100 < n) \<longrightarrow>
      insert_submission d uid nid i =
        (if submissions_insert_check d uid (new_row nid i) then Inl ValidationFailed
         else Inl AuthorizationDenied)) \<and>
   (\<forall>old n. find (\<lambda>s. s_id s = sid) (submissions d) = Some old \<and>
        s_score (upd old) = Some n \<and> (n < 0 \<or> 100 < n) \<longrightarrow>
      update_submission d uid sid upd =
        (if submissions_update_using d uid old
         then (if submissions_update_check d uid (upd old) then Inl ValidationFailed
               else Inl AuthorizationDenied)
         else Inr d))"
proof -
  have a: "s_score r = None \<or> (\<exists>n. s_score r = Some n \<and> 0 \<le> n \<and> n \<le> 100)"
    if "list_all submissions_score_check (submissions d)" "r \<in> set (submissions d)" for r
    using that by (auto simp: list_all_iff score_check_iff)
  have b1: "list_all submissions_score_check (submissions d')"
    if inv: "list_all submissions_score_check (submissions d)"
      and ok: "insert_submission d uid nid i = Inr d'" for d'
    using insert_submission_InrD[OF ok] inv by (auto simp: submissions_constraints_def)
  have b2: "list_all submissions_score_check (submissions d')"
    if inv: "list_all submissions_score_check (submissions d)"
      and ok: "update_submission d uid sid upd = Inr d'" for d'
    using ok
  proof (cases rule: update_submission_InrD)
    case untouched
    then show ?thesis using inv by simp
  next
    case (replaced old)
    have "submissions_score_check (upd old)"
      using replaced(4) by (simp add: submissions_constraints_def)
    then show ?thesis
      using inv by (auto simp: replaced(5) list_all_iff dest: replace_row_mem)
  qed
  have b3: "list_all submissions_score_check (submissions d')"
    if inv: "list_all submissions_score_check (submissions d)"
      and ok: "delete_submission d uid sid = Inr d'" for d'
    using ok inv
    by (auto simp: delete_submission_def list_all_iff split: option.splits if_splits)
  have c: "insert_submission d uid nid i =
        (if submissions_insert_check d uid (new_row nid i) then Inl ValidationFailed
         else Inl AuthorizationDenied)"
    if "i_score i = Some n" "n < 0 \<or> 100 < n" for n
  proof -
    have "\<not> submissions_score_check (new_row nid i)"
      using that by (auto simp: submissions_score_check_def new_row_def)
    then show ?thesis by (simp add: insert_submission_def submissions_constraints_def)
  qed
  have e: "update_submission d uid sid upd =
        (if submissions_update_using d uid old
         then (if submissions_update_check d uid (upd old) then Inl ValidationFailed
               else Inl AuthorizationDenied)
         else Inr d)"
    if "find (\<lambda>s. s_id s = sid) (submissions d) = Some old" "s_score (upd old) = Some n"
      "n < 0 \<or> 100 < n" for old n
  proof -
    have "\<not> submissions_score_check (upd old)"
      using that(2,3) by (auto simp: submissions_score_check_def)
    then show ?thesis
      by (simp add: update_submission_found[OF that(1)] submissions_constraints_def)
  qed
  show ?thesis using a b1 b2 b3 c e by blast
qed

text \<open>
  \<open>homework1\<close> has \<open>max_score\<close> 200, so the form accepts 150; the store refuses it for
  the instructor, and accepts 85.
\<close>

theorem score_bound_enforced_witness:
  "list_all submissions_score_check (submissions school) \<and>
   a_max_score homework1 = 200 \<and>
   find (\<lambda>s. s_id s = 50) (submissions school) = Some late_work \<and>
   update_submission school 1 50
     (submissionData \<lparr>gf_score = 150, gf_feedback = '''', gf_status = Graded\<rparr> 1 1736600000) =
     Inl ValidationFailed \<and>
   update_submission school 1 50 (submissionData grade85 1 1736600000) = Inr graded_school \<and>
   list_all submissions_score_check (submissions graded_school)"
proof -
  let ?upd = "submissionData \<lparr>gf_score = 150, gf_feedback = '''', gf_status = Graded\<rparr> 1 1736600000"
  have inv: "list_all submissions_score_check (submissions school)"
    by (simp add: school_defs submissions_score_check_def)
  have m: "a_max_score homework1 = 200" by (simp add: school_defs)
  have f: "find (\<lambda>s. s_id s = 50) (submissions school) = Some late_work"
    by (simp add: school_defs)
  have sc: "s_score (?upd late_work) = Some 150" by (simp add: submissionData_def)
  have pol: "submissions_update_using school 1 late_work"
    "submissions_update_check school 1 (?upd late_work)"
    by (simp_all add: school_defs policy_defs submissionData_def)
  have g: "update_submission school 1 50 (submissionData grade85 1 1736600000) = Inr graded_school"
    by (simp add: school_defs policy_defs constraint_defs op_defs)
  have bad: "update_submission school 1 50 ?upd = Inl ValidationFailed"
    using score_bound_enforced[where d = school and uid = 1 and sid = 50 and upd = ?upd,
        THEN conjunct2, THEN conjunct2, rule_format, of late_work 150] f sc pol
    by simp
  have inv': "list_all submissions_score_check (submissions graded_school)"
    using score_bound_enforced[where d = school and uid = 1 and sid = 50
        and upd = "submissionData grade85 1 1736600000",
        THEN conjunct1, rule_format, OF inv, THEN conjunct2, rule_format] g
    by blast
  show ?thesis using inv m f bad g inv' by simp
qed


text \<open>
  The claim as stated fails for a caller the policies do not admit. Student 2 creating
  a row with the score 150 against the draft \<open>homework2\<close> is \<open>AuthorizationDenied\<close>, not
  told of the bound; teacher 3 setting the score 150 on \<open>late_work\<close>, a row hidden from
  teacher 3, gets no error at all. The table is unchanged in both cases.
\<close>

theorem score_unauthorized_counterexample:
  "insert_submission school 2 51
     \<lparr>i_assignment_id = 11, i_user_id = 2, i_submitted_at = None, i_file_url = None,
      i_answer_text = None, i_score = Some 150, i_feedback = None, i_status = None,
      i_graded_by = None, i_graded_at = None\<rparr> = Inl AuthorizationDenied \<and>
   find (\<lambda>s. s_id s = 50) (submissions school) = Some late_work \<and>
   update_submission school 3 50 (\<lambda>s. s\<lparr>s_score := Some 150\<rparr>) = Inr school \<and>
   update_submission school 3 50 (\<lambda>s. s\<lparr>s_score := Some 150\<rparr>) \<noteq> Inl ValidationFailed"
  by (simp add: school_defs policy_defs op_defs)

section \<open>One submission per student and assignment\<close>

text \<open>
  C6, as amended. In a table that satisfies the primary key and the unique constraint
  two rows with the same \<open>(assignment_id, user_id)\<close> are the same row, and insert,
  update and delete keep it so. An insert for a pair that has a row never succeeds: it
  is \<open>ValidationFailed\<close> when the \<open>INSERT\<close> policy admits it and \<open>AuthorizationDenied\<close>
  when it does not; in particular the caller of a successful insert who tries the pair a
  second time gets \<open>ValidationFailed\<close>.
\<close>

theorem unique_user_assignment:
  "(wf_submissions (submissions d) \<longrightarrow>
      (\<forall>r\<in>set (submissions d). \<forall>r'\<in>set (submissions d).
         s_assignment_id r = s_assignment_id r' \<and> s_user_id r = s_user_id r' \<longrightarrow> r = r') \<and>
      (\<forall>d'. insert_submission d uid nid i = Inr d' \<or> update_submission d uid sid upd = Inr d' \<or>
            delete_submission d uid sid = Inr d' \<longrightarrow> wf_submissions (submissions d'))) \<and>
   (\<forall>r\<in>set (submissions d).
      s_assignment_id r = i_assignment_id i \<and> s_user_id r = i_user_id i \<longrightarrow>
        insert_submission d uid nid i =
          (if submissions_insert_check d uid (new_row nid i) then Inl ValidationFailed
           else Inl AuthorizationDenied)) \<and>
   (\<forall>d'. insert_submission d uid nid i = Inr d' \<longrightarrow>
      (\<forall>nid' i'. i_assignment_id i' = i_assignment_id i \<and> i_user_id i' = i_user_id i \<longrightarrow>
         insert_submission d' uid nid' i' = Inl ValidationFailed))"
proof -
  have a: "r = r'" if "wf_submissions (submissions d)" "r \<in> set (submissions d)"
    "r' \<in> set (submissions d)" "s_assignment_id r = s_assignment_id r'"
    "s_user_id r = s_user_id r'" for r r'
    using wf_submissions_unique that by blast
  have b: "wf_submissions (submissions d')" if "wf_submissions (submissions d)"
    "insert_submission d uid nid i = Inr d' \<or> update_submission d uid sid upd = Inr d' \<or>
       delete_submission d uid sid = Inr d'" for d'
    using that insert_preserves_wf update_preserves_wf delete_preserves_wf by blast
  have c: "insert_submission d uid nid i =
          (if submissions_insert_check d uid (new_row nid i) then Inl ValidationFailed
           else Inl AuthorizationDenied)"
    if "r \<in> set (submissions d)" "s_assignment_id r = i_assignment_id i"
      "s_user_id r = i_user_id i" for r
    using insert_existing_pair that by blast
  have e: "insert_submission d' uid nid' i' = Inl ValidationFailed"
    if ok: "insert_submission d uid nid i = Inr d'"
      and same: "i_assignment_id i' = i_assignment_id i" "i_user_id i' = i_user_id i"
    for d' nid' i'
  proof -
    from insert_submission_InrD[OF ok] have
      chk: "submissions_insert_check d uid (new_row nid i)"
      and d': "d' = d\<lparr>submissions := submissions d @ [new_row nid i]\<rparr>"
      by simp_all
    have "submissions_insert_check d' uid (new_row nid' i')"
      using chk same insert_check_pair[of "new_row nid' i'" "new_row nid i" d uid]
      by (simp add: d' insert_check_submissions new_row_def)
    moreover have "new_row nid i \<in> set (submissions d')"
      "s_assignment_id (new_row nid i) = i_assignment_id i'"
      "s_user_id (new_row nid i) = i_user_id i'"
      using same by (simp_all add: d' new_row_def)
    ultimately show ?thesis
      using insert_existing_pair[of "new_row nid i" d' i' uid nid'] by simp
  qed
  show ?thesis using a b c e by blast
qed


text \<open>
  Student 2 has \<open>late_work\<close> for assignment 10 and tries to create a second row.
\<close>

theorem unique_user_assignment_witness:
  "wf_submissions (submissions school) \<and> late_work \<in> set (submissions school) \<and>
   s_assignment_id late_work = i_assignment_id second_attempt \<and>
   s_user_id late_work = i_user_id second_attempt \<and>
   insert_submission school 2 51 second_attempt = Inl ValidationFailed \<and>
   update_submission school 1 50 (submissionData grade85 1 1736600000) = Inr graded_school \<and>
   wf_submissions (submissions graded_school)"
proof -
  have wf: "wf_submissions (submissions school)"
    by (simp add: school_defs wf_submissions_def)
  have mem: "late_work \<in> set (submissions school)"
    "s_assignment_id late_work = i_assignment_id second_attempt"
    "s_user_id late_work = i_user_id second_attempt"
    by (simp_all add: school_defs second_attempt_def)
  have pol: "submissions_insert_check school 2 (new_row 51 second_attempt)"
    by (simp add: school_defs second_attempt_def policy_defs new_row_def)
  have g: "update_submission school 1 50 (submissionData grade85 1 1736600000) = Inr graded_school"
    by (simp add: school_defs policy_defs constraint_defs op_defs)
  have bad: "insert_submission school 2 51 second_attempt = Inl ValidationFailed"
    using unique_user_assignment[where d = school and uid = 2 and nid = 51 and i = second_attempt,
        THEN conjunct2, THEN conjunct1, rule_format, of late_work] mem pol
    by simp
  have wf': "wf_submissions (submissions graded_school)"
    using unique_user_assignment[where d = school and uid = 1 and sid = 50
        and upd = "submissionData grade85 1 1736600000",
        THEN conjunct1, rule_format, OF wf, THEN conjunct2, rule_format] g
    by blast
  show ?thesis using wf mem bad g wf' by simp
qed


text \<open>
  The claim as stated fails when the second attempt is not the owner's: student 5
  creating a row for the pair of student 2 is denied by the policy before the unique
  constraint is looked at.
\<close>

theorem second_creation_denied_counterexample:
  "late_work \<in> set (submissions school) \<and>
   s_assignment_id late_work = i_assignment_id second_attempt \<and>
   s_user_id late_work = i_user_id second_attempt \<and>
   insert_submission school 5 51 second_attempt = Inl AuthorizationDenied \<and>
   insert_submission school 5 51 second_attempt \<noteq> Inl ValidationFailed"
  by (simp add: school_defs second_attempt_def policy_defs op_defs)


section \<open>A grade recorded without a submission, in the progress view\<close>



end
